theory Spec2Isabelle
  imports Main "HOL-Library.AList"
begin

section \<open>JavaScript values, errors and operators used by the client\<close>

text \<open>
  A thrown exception (or a rejected promise) is a value of \<open>js_error\<close>; every function
  that can throw returns \<open>js_error + 'a\<close>, with \<open>Inl\<close> for the exception.
  \<open>FetchError\<close> is what the transport raises when the network fails.
\<close>

datatype js_error = Error string | TypeError string | FetchError string

text \<open>
  A value decoded from a JSON body. The object case carries the value at the type the
  caller of \<open>query<T>\<close> announced (no runtime validation is done by the code). Numbers
  are the integers; JSON has no \<open>undefined\<close> and no \<open>NaN\<close>.
\<close>

datatype 'a js_data = JNull | JBool bool | JNumber int | JString string | JObject 'a

text \<open>ToBoolean, as \<open>!result.data\<close> applies it.\<close>

fun truthy :: "'a js_data \<Rightarrow> bool" where
  "truthy JNull = False"
| "truthy (JBool b) = b"
| "truthy (JNumber n) = (n \<noteq> 0)"
| "truthy (JString s) = (s \<noteq> [])"
| "truthy (JObject _) = True"

text \<open>
  \<open>a || b\<close> on values of type \<open>string | undefined\<close> (\<open>None\<close> is \<open>undefined\<close>): the
  left operand when it is truthy, that is a non-empty string, otherwise the right one.
  \<open>or_default\<close> is the same operator with a string literal on the right.
\<close>

definition or_else :: "string option \<Rightarrow> string option \<Rightarrow> string option" where
  "or_else a b = (case a of None \<Rightarrow> b | Some s \<Rightarrow> if s = [] then b else Some s)"

definition or_default :: "string option \<Rightarrow> string \<Rightarrow> string" where
  "or_default a d = (case a of None \<Rightarrow> d | Some s \<Rightarrow> if s = [] then d else s)"

text \<open>
  The primitive values that occur as GraphQL variables and as property values of the
  object built by \<open>groupByAuthor\<close>. Numbers are the integers, with \<open>NaN\<close> apart.
\<close>

datatype js_prim = PUndefined | PNaN | PNumber int | PString string

text \<open>
  What a property read can yield: a primitive, or one of the objects a plain object
  inherits from \<open>Object.prototype\<close>: a built-in function (with its name) or
  \<open>Object.prototype\<close> itself.
\<close>

datatype js_value = Prim js_prim | NativeFunction string | ObjectPrototype

fun to_boolean :: "js_value \<Rightarrow> bool" where
  "to_boolean (Prim PUndefined) = False"
| "to_boolean (Prim PNaN) = False"
| "to_boolean (Prim (PNumber n)) = (n \<noteq> 0)"
| "to_boolean (Prim (PString s)) = (s \<noteq> [])"
| "to_boolean (NativeFunction _) = True"
| "to_boolean ObjectPrototype = True"

text \<open>\<open>a || b\<close> on property values.\<close>

definition js_or :: "js_value \<Rightarrow> js_value \<Rightarrow> js_value" where
  "js_or a b = (if to_boolean a then a else b)"

text \<open>\<open>Array.prototype.join\<close> on an array of strings.\<close>

fun join :: "string \<Rightarrow> string list \<Rightarrow> string" where
  "join sep [] = []"
| "join sep [x] = x"
| "join sep (x # y # ys) = x @ sep @ join sep (y # ys)"

text \<open>The decimal digits of a number, as a template literal prints \<open>response.status\<close>.\<close>

fun string_of_nat :: "nat \<Rightarrow> string" where
  "string_of_nat n =
     (if n < 10 then [''0123456789'' ! n]
      else string_of_nat (n div 10) @ [''0123456789'' ! (n mod 10)])"

declare string_of_nat.simps [simp del]

text \<open>
  \<open>ToPrimitive\<close> with the default hint: a built-in function prints as its source
  text (in the form Node's engine gives it), \<open>Object.prototype\<close> through its own
  \<open>toString\<close>.
\<close>

fun to_primitive :: "js_value \<Rightarrow> js_prim" where
  "to_primitive (Prim p) = p"
| "to_primitive (NativeFunction f) = PString (''function '' @ f @ ''() { [native code] }'')"
| "to_primitive ObjectPrototype = PString ''[object Object]''"

definition string_of_int :: "int \<Rightarrow> string" where
  "string_of_int n = (if n < 0 then ''-'' @ string_of_nat (nat (- n)) else string_of_nat (nat n))"

fun prim_to_string :: "js_prim \<Rightarrow> string" where
  "prim_to_string PUndefined = ''undefined''"
| "prim_to_string PNaN = ''NaN''"
| "prim_to_string (PNumber n) = string_of_int n"
| "prim_to_string (PString s) = s"

text \<open>
  The binary \<open>+\<close>: both operands are made primitive; if one of them is then a string
  the result is the concatenation, otherwise the numeric sum, which is \<open>NaN\<close> as soon as
  one operand is \<open>undefined\<close> or \<open>NaN\<close>.
\<close>

definition js_plus :: "js_value \<Rightarrow> js_value \<Rightarrow> js_prim" where
  "js_plus a b =
     (case (to_primitive a, to_primitive b) of
        (PNumber m, PNumber n) \<Rightarrow> PNumber (m + n)
      | (PString s, q) \<Rightarrow> PString (s @ prim_to_string q)
      | (p, PString s) \<Rightarrow> PString (prim_to_string p @ s)
      | _ \<Rightarrow> PNaN)"

text \<open>
  A plain object created by \<open>{}\<close>: its own properties, in order of creation, as an
  association list; its prototype is \<open>Object.prototype\<close>, whose properties are the
  standard ones.
\<close>

type_synonym js_object = "(string \<times> js_prim) list"

definition object_prototype_get :: "string \<Rightarrow> js_value" where
  "object_prototype_get k =
     (if k = ''constructor'' then NativeFunction ''Object''
      else if k \<in> set [''__defineGetter__'', ''__defineSetter__'', ''hasOwnProperty'',
                        ''__lookupGetter__'', ''__lookupSetter__'', ''isPrototypeOf'',
                        ''propertyIsEnumerable'', ''toString'', ''valueOf'', ''toLocaleString'']
      then NativeFunction k
      else if k = ''__proto__'' then ObjectPrototype
      else Prim PUndefined)"

text \<open>\<open>obj[k]\<close>: the own property if there is one, otherwise the inherited one.\<close>

definition js_get :: "js_object \<Rightarrow> string \<Rightarrow> js_value" where
  "js_get obj k = (case map_of obj k of Some p \<Rightarrow> Prim p | None \<Rightarrow> object_prototype_get k)"

text \<open>
  \<open>obj[k] = p\<close> for a primitive \<open>p\<close>: creates or overwrites the own property, except
  that \<open>__proto__\<close> is an accessor of \<open>Object.prototype\<close> whose setter ignores a
  primitive.
\<close>

definition js_set :: "js_object \<Rightarrow> string \<Rightarrow> js_prim \<Rightarrow> js_object" where
  "js_set obj k p = (if k = ''__proto__'' then obj else AList.update k p obj)"


section \<open>The client: configuration and construction\<close>

record GitHubGraphQLClientConfig =
  token :: "string option"
  baseUrl :: "string option"

text \<open>The two private fields of the class.\<close>

record GitHubGraphQLClient =
  this_token :: string
  this_baseUrl :: string

text \<open>
  The constructor. \<open>env\<close> is \<open>process.env\<close>; the argument is optional and defaults to
  \<open>{}\<close>. Nothing here takes the transport: construction cannot reach the network.
\<close>

definition constructor ::
  "(string \<rightharpoonup> string) \<Rightarrow> GitHubGraphQLClientConfig option \<Rightarrow> js_error + GitHubGraphQLClient" where
  "constructor env config_arg =
     (let config = (case config_arg of
                      None \<Rightarrow> \<lparr>token = None, baseUrl = None\<rparr>
                    | Some c \<Rightarrow> c);
          tok = or_default (or_else (token config) (env ''GITHUB_TOKEN'')) [];
          url = or_default (baseUrl config) ''https://api.github.com/graphql''
      in if tok = []
         then Inl (Error ''GitHub token is required. Set GITHUB_TOKEN environment variable or pass token in config.'')
         else Inr \<lparr>this_token = tok, this_baseUrl = url\<rparr>)"

text \<open>The token the constructor's argument supplies, if any: \<open>config.token\<close>.\<close>

definition config_token :: "GitHubGraphQLClientConfig option \<Rightarrow> string option" where
  "config_token config_arg = (case config_arg of None \<Rightarrow> None | Some c \<Rightarrow> token c)"


section \<open>Requests, responses and the transport\<close>

text \<open>
  The object handed to \<open>JSON.stringify\<close>, kept structured: the serialised text is not
  modelled.
\<close>

record request_body =
  query_text :: string
  variables :: "(string \<times> js_prim) list"

record request =
  req_url :: string
  req_method :: string
  req_headers :: "(string \<times> string) list"
  req_body :: request_body

record gql_error =
  message :: string
  locations :: "(int \<times> int) list option"
  path :: "string list option"

text \<open>
  The response envelope: both fields are optional, \<open>None\<close> is a field that is absent.
  A field \<open>data: null\<close> is \<open>Some JNull\<close>.
\<close>

record 'a GraphQLResponse =
  data :: "'a js_data option"
  errors :: "gql_error list option"

text \<open>What the code reads of a fetch response; \<open>json\<close> is the outcome of \<open>response.json()\<close>.\<close>

record 'a http_response =
  ok :: bool
  status :: nat
  statusText :: string
  json :: "js_error + 'a GraphQLResponse"

text \<open>
  The transport (\<open>fetch\<close>) is outside the repository. It is a function of the requests
  issued so far and of the current request, so any deterministic server or mock is an
  instance; the state threaded through the client's methods is the list of requests
  issued, oldest first.
\<close>

type_synonym 'a transport = "request list \<Rightarrow> request \<Rightarrow> js_error + 'a http_response"


section \<open>query\<close>

text \<open>The second argument of \<open>fetch\<close> together with its first, the URL.\<close>

definition fetch_request ::
  "GitHubGraphQLClient \<Rightarrow> string \<Rightarrow> (string \<times> js_prim) list option \<Rightarrow> request" where
  "fetch_request this q variables_arg =
     \<lparr>req_url = this_baseUrl this,
      req_method = ''POST'',
      req_headers =
        [(''Authorization'', ''Bearer '' @ this_token this),
         (''Content-Type'', ''application/json''),
         (''User-Agent'', ''GitHub-GraphQL-Client/1.0.0'')],
      req_body =
        \<lparr>query_text = q,
         variables = (case variables_arg of None \<Rightarrow> [] | Some v \<Rightarrow> v)\<rparr>\<rparr>"

text \<open>
  \<open>query\<close> returns what the promise settles to, and the request list extended by the one
  request it issued.
\<close>

definition query ::
  "'a transport \<Rightarrow> GitHubGraphQLClient \<Rightarrow> request list \<Rightarrow> string \<Rightarrow>
   (string \<times> js_prim) list option \<Rightarrow> (js_error + 'a js_data) \<times> request list" where
  "query fetch this issued q variables_arg =
     (let req = fetch_request this q variables_arg;
          outcome =
            (case fetch issued req of
               Inl e \<Rightarrow> Inl e
             | Inr response \<Rightarrow>
                 if \<not> ok response
                 then Inl (Error (''HTTP '' @ string_of_nat (status response) @ '': '' @ statusText response))
                 else
                   (case json response of
                      Inl e \<Rightarrow> Inl e
                    | Inr result \<Rightarrow>
                        (let no_errors =
                               (case data result of
                                  None \<Rightarrow> Inl (Error ''No data returned from GraphQL query'')
                                | Some d \<Rightarrow>
                                    if \<not> truthy d
                                    then Inl (Error ''No data returned from GraphQL query'')
                                    else Inr d)
                         in case errors result of
                              None \<Rightarrow> no_errors
                            | Some es \<Rightarrow>
                                if length es > 0
                                then Inl (Error (''GraphQL errors: '' @ join '', '' (map message es)))
                                else no_errors)))
      in (outcome, issued @ [req]))"


section \<open>The data fetched\<close>

record GitHubUser =
  login :: string
  name :: "string option"
  email :: "string option"
  avatarUrl :: string

text \<open>
  The fields of a comment carry the prefix \<open>comment_\<close>, since a pull request has
  fields of the same names. A review comment has the fields of a comment and three more.
\<close>

record PullRequestComment =
  comment_id :: string
  comment_body :: string
  comment_createdAt :: string
  comment_updatedAt :: string
  comment_author :: GitHubUser
  comment_url :: string

record ReviewComment = PullRequestComment +
  comment_path :: string
  comment_line :: "int option"
  comment_originalLine :: "int option"

text \<open>
  The two shapes \<open>{nodes, totalCount}\<close> and \<open>{nodes, pageInfo, totalCount}\<close>. A count is
  a GraphQL \<open>Int\<close>; JavaScript adds such numbers exactly as long as the sums stay below
  \<open>2^53\<close>, a bound the integers here do not have.
\<close>

record 'a connection =
  nodes :: "'a list"
  totalCount :: int

record PageInfo =
  hasNextPage :: bool
  endCursor :: "string option"

record 'a page_connection = "'a connection" +
  pageInfo :: PageInfo

datatype pr_state = OPEN | CLOSED | MERGED

record PullRequest =
  id' :: string
  number :: int
  title :: string
  body :: "string option"
  state :: pr_state
  createdAt :: string
  updatedAt :: string
  mergedAt :: "string option"
  author :: GitHubUser
  url :: string
  comments :: "PullRequestComment connection"
  reviewComments :: "ReviewComment connection"

record Repository =
  pullRequests :: "PullRequest page_connection"

record PullRequestsResponse =
  repository :: Repository


section \<open>Fetching pull requests\<close>

text \<open>The GraphQL document of \<open>getPullRequestsWithCommentsSince\<close>, a template literal.\<close>

definition GetPullRequestsWithComments :: string where
  "GetPullRequestsWithComments = concat
    [''\<newline>'',
     ''      query GetPullRequestsWithComments(\<newline>'',
     ''        $owner: String!\<newline>'',
     ''        $repo: String!\<newline>'',
     ''        $since: DateTime!\<newline>'',
     ''        $first: Int!\<newline>'',
     ''        $after: String\<newline>'',
     ''      ) {\<newline>'',
     ''        repository(owner: $owner, name: $repo) {\<newline>'',
     ''          pullRequests(\<newline>'',
     ''            first: $first\<newline>'',
     ''            after: $after\<newline>'',
     ''            orderBy: { field: UPDATED_AT, direction: DESC }\<newline>'',
     ''            filterBy: { since: $since }\<newline>'',
     ''          ) {\<newline>'',
     ''            nodes {\<newline>'',
     ''              id\<newline>'',
     ''              number\<newline>'',
     ''              title\<newline>'',
     ''              body\<newline>'',
     ''              state\<newline>'',
     ''              createdAt\<newline>'',
     ''              updatedAt\<newline>'',
     ''              mergedAt\<newline>'',
     ''              url\<newline>'',
     ''              author {\<newline>'',
     ''                login\<newline>'',
     ''                ... on User {\<newline>'',
     ''                  name\<newline>'',
     ''                  email\<newline>'',
     ''                  avatarUrl\<newline>'',
     ''                }\<newline>'',
     ''              }\<newline>'',
     ''              comments(first: 100) {\<newline>'',
     ''                nodes {\<newline>'',
     ''                  id\<newline>'',
     ''                  body\<newline>'',
     ''                  createdAt\<newline>'',
     ''                  updatedAt\<newline>'',
     ''                  url\<newline>'',
     ''                  author {\<newline>'',
     ''                    login\<newline>'',
     ''                    ... on User {\<newline>'',
     ''                      name\<newline>'',
     ''                      email\<newline>'',
     ''                      avatarUrl\<newline>'',
     ''                    }\<newline>'',
     ''                  }\<newline>'',
     ''                }\<newline>'',
     ''                totalCount\<newline>'',
     ''              }\<newline>'',
     ''              reviewComments(first: 100) {\<newline>'',
     ''                nodes {\<newline>'',
     ''                  id\<newline>'',
     ''                  body\<newline>'',
     ''                  createdAt\<newline>'',
     ''                  updatedAt\<newline>'',
     ''                  path\<newline>'',
     ''                  line\<newline>'',
     ''                  originalLine\<newline>'',
     ''                  url\<newline>'',
     ''                  author {\<newline>'',
     ''                    login\<newline>'',
     ''                    ... on User {\<newline>'',
     ''                      name\<newline>'',
     ''                      email\<newline>'',
     ''                      avatarUrl\<newline>'',
     ''                    }\<newline>'',
     ''                  }\<newline>'',
     ''                }\<newline>'',
     ''                totalCount\<newline>'',
     ''              }\<newline>'',
     ''            }\<newline>'',
     ''            pageInfo {\<newline>'',
     ''              hasNextPage\<newline>'',
     ''              endCursor\<newline>'',
     ''            }\<newline>'',
     ''            totalCount\<newline>'',
     ''          }\<newline>'',
     ''        }\<newline>'',
     ''      }\<newline>'',
     ''    '']"

text \<open>One page. \<open>first\<close> is optional and defaults to 20; \<open>after\<close> is optional.\<close>

definition getPullRequestsWithCommentsSince ::
  "PullRequestsResponse transport \<Rightarrow> GitHubGraphQLClient \<Rightarrow> request list \<Rightarrow>
   string \<Rightarrow> string \<Rightarrow> string \<Rightarrow> int option \<Rightarrow> string option \<Rightarrow>
   (js_error + PullRequestsResponse js_data) \<times> request list" where
  "getPullRequestsWithCommentsSince fetch this issued owner repo since first_arg after =
     (let first = (case first_arg of None \<Rightarrow> 20 | Some n \<Rightarrow> n)
      in query fetch this issued GetPullRequestsWithComments
           (Some [(''owner'', PString owner),
                  (''repo'', PString repo),
                  (''since'', PString since),
                  (''first'', PNumber first),
                  (''after'', case after of None \<Rightarrow> PUndefined | Some c \<Rightarrow> PString c)]))"

text \<open>
  The loop of \<open>getAllPullRequestsWithCommentsSince\<close>, with its three local variables
  as arguments. Nothing bounds the number of pages, so the loop is a partial function:
  \<open>None\<close> is a run that never returns. A page that is not an object (nothing checks
  the shape of \<open>data\<close>) makes the property access throw.
\<close>

partial_function (option) getAll_loop ::
  "PullRequestsResponse transport \<Rightarrow> GitHubGraphQLClient \<Rightarrow> string \<Rightarrow> string \<Rightarrow> string \<Rightarrow>
   PullRequest list \<Rightarrow> bool \<Rightarrow> string option \<Rightarrow> request list \<Rightarrow>
   ((js_error + PullRequest list) \<times> request list) option" where
  "getAll_loop fetch this owner repo since allPullRequests hasNextPage' after issued =
     (if hasNextPage' then
        (case getPullRequestsWithCommentsSince fetch this issued owner repo since (Some 100) after of
           (Inl e, issued') \<Rightarrow> Some (Inl e, issued')
         | (Inr (JObject response), issued') \<Rightarrow>
             getAll_loop fetch this owner repo since
               (allPullRequests @ nodes (pullRequests (repository response)))
               (hasNextPage (pageInfo (pullRequests (repository response))))
               (endCursor (pageInfo (pullRequests (repository response))))
               issued'
         | (Inr _, issued') \<Rightarrow>
             Some (Inl (TypeError ''Cannot read properties of undefined (reading 'pullRequests')''),
                   issued'))
      else Some (Inr allPullRequests, issued))"

definition getAllPullRequestsWithCommentsSince ::
  "PullRequestsResponse transport \<Rightarrow> GitHubGraphQLClient \<Rightarrow> request list \<Rightarrow>
   string \<Rightarrow> string \<Rightarrow> string \<Rightarrow> ((js_error + PullRequest list) \<times> request list) option" where
  "getAllPullRequestsWithCommentsSince fetch this issued owner repo since =
     getAll_loop fetch this owner repo since [] True None issued"


subsection \<open>Vocabulary for statements about pagination\<close>

abbreviation page_nodes :: "PullRequestsResponse \<Rightarrow> PullRequest list" where
  "page_nodes p \<equiv> nodes (pullRequests (repository p))"

abbreviation page_hasNextPage :: "PullRequestsResponse \<Rightarrow> bool" where
  "page_hasNextPage p \<equiv> hasNextPage (pageInfo (pullRequests (repository p)))"

abbreviation page_endCursor :: "PullRequestsResponse \<Rightarrow> string option" where
  "page_endCursor p \<equiv> endCursor (pageInfo (pullRequests (repository p)))"

text \<open>
  The request that \<open>getPullRequestsWithCommentsSince\<close> hands to the transport for a
  page of size \<open>first\<close> after the cursor \<open>after\<close>.
\<close>

definition page_request ::
  "GitHubGraphQLClient \<Rightarrow> string \<Rightarrow> string \<Rightarrow> string \<Rightarrow> int \<Rightarrow> string option \<Rightarrow> request" where
  "page_request this owner repo since first after =
     fetch_request this GetPullRequestsWithComments
       (Some [(''owner'', PString owner),
              (''repo'', PString repo),
              (''since'', PString since),
              (''first'', PNumber first),
              (''after'', case after of None \<Rightarrow> PUndefined | Some c \<Rightarrow> PString c)])"

text \<open>
  A valid page response: a success status and a body that decodes to an envelope without
  errors whose \<open>data\<close> is a page. \<open>page_of\<close> yields that page.
\<close>

definition page_of :: "PullRequestsResponse http_response \<Rightarrow> PullRequestsResponse option" where
  "page_of response =
     (if ok response then
        (case json response of
           Inl _ \<Rightarrow> None
         | Inr result \<Rightarrow>
             if errors result = None \<or> errors result = Some [] then
               (case data result of Some (JObject p) \<Rightarrow> Some p | _ \<Rightarrow> None)
             else None)
      else None)"

text \<open>
  The transport serves the pages \<open>ps\<close> in order to a caller that has issued \<open>issued\<close>,
  asks for pages of 100, starts after the cursor \<open>after\<close> and then follows each page's
  \<open>endCursor\<close>.
\<close>

fun serves_pages ::
  "PullRequestsResponse transport \<Rightarrow> GitHubGraphQLClient \<Rightarrow> string \<Rightarrow> string \<Rightarrow> string \<Rightarrow>
   request list \<Rightarrow> string option \<Rightarrow> PullRequestsResponse list \<Rightarrow> bool" where
  "serves_pages fetch this owner repo since issued after [] = True"
| "serves_pages fetch this owner repo since issued after (p # ps) =
     (case fetch issued (page_request this owner repo since 100 after) of
        Inl _ \<Rightarrow> False
      | Inr response \<Rightarrow>
          page_of response = Some p \<and>
          serves_pages fetch this owner repo since
            (issued @ [page_request this owner repo since 100 after]) (page_endCursor p) ps)"


section \<open>The analyzer\<close>

record summary =
  totalPRs :: int
  openPRs :: int
  closedPRs :: int
  mergedPRs :: int
  totalComments :: int
  totalReviewComments :: int
  prsByAuthor :: js_object

text \<open>The \<open>for ... of\<close> loop over the pull requests, starting from the empty object.\<close>

definition groupByAuthor :: "PullRequest list \<Rightarrow> js_object" where
  "groupByAuthor prs =
     foldl (\<lambda>grouped pr.
              let author' = login (author pr)
              in js_set grouped author'
                   (js_plus (js_or (js_get grouped author') (Prim (PNumber 0))) (Prim (PNumber 1))))
           [] prs"

text \<open>
  \<open>getPRSummary\<close> of the analyzer holding the client \<open>this\<close>: fetch every page, then
  build the summary object.
\<close>

definition getPRSummary ::
  "PullRequestsResponse transport \<Rightarrow> GitHubGraphQLClient \<Rightarrow> request list \<Rightarrow>
   string \<Rightarrow> string \<Rightarrow> string \<Rightarrow> ((js_error + summary) \<times> request list) option" where
  "getPRSummary fetch this issued owner repo since =
     (case getAllPullRequestsWithCommentsSince fetch this issued owner repo since of
        None \<Rightarrow> None
      | Some (Inl e, issued') \<Rightarrow> Some (Inl e, issued')
      | Some (Inr prs, issued') \<Rightarrow>
          Some (Inr \<lparr>totalPRs = int (length prs),
                     openPRs = int (length (filter (\<lambda>pr. state pr = OPEN) prs)),
                     closedPRs = int (length (filter (\<lambda>pr. state pr = CLOSED) prs)),
                     mergedPRs = int (length (filter (\<lambda>pr. state pr = MERGED) prs)),
                     totalComments = foldl (\<lambda>sum pr. sum + totalCount (comments pr)) 0 prs,
                     totalReviewComments = foldl (\<lambda>sum pr. sum + totalCount (reviewComments pr)) 0 prs,
                     prsByAuthor = groupByAuthor prs\<rparr>,
                issued'))"


subsection \<open>Vocabulary for statements about the author mapping\<close>

text \<open>The body of the loop of \<open>groupByAuthor\<close>, for one author.\<close>

definition count_author :: "js_object \<Rightarrow> string \<Rightarrow> js_object" where
  "count_author grouped author' =
     js_set grouped author'
       (js_plus (js_or (js_get grouped author') (Prim (PNumber 0))) (Prim (PNumber 1)))"

text \<open>The number held by a property value, and the sum of these over the own properties.\<close>

fun prim_count :: "js_prim \<Rightarrow> int" where
  "prim_count (PNumber n) = n"
| "prim_count _ = 0"

definition count_total :: "js_object \<Rightarrow> int" where
  "count_total obj = sum_list (map (\<lambda>kv. prim_count (snd kv)) obj)"

text \<open>An object whose keys are distinct and whose values are all positive numbers.\<close>

definition counting :: "js_object \<Rightarrow> bool" where
  "counting obj = (distinct (map fst obj) \<and> (\<forall>kv \<in> set obj. \<exists>n>0. snd kv = PNumber n))"


section \<open>Test doubles\<close>

text \<open>
  The mocks of the test suite: \<open>mockResolvedValue\<close> answers every call with one
  response; a chain of \<open>mockResolvedValueOnce\<close> answers the i-th call with the i-th
  response, and a call beyond the chain gets \<open>undefined\<close>, on which \<open>response.ok\<close> throws.
\<close>

definition mockResolvedValue :: "'a http_response \<Rightarrow> 'a transport" where
  "mockResolvedValue r issued req = Inr r"

definition mockResolvedValueOnce :: "'a http_response list \<Rightarrow> 'a transport" where
  "mockResolvedValueOnce rs issued req =
     (if length issued < length rs then Inr (rs ! length issued)
      else Inl (TypeError ''Cannot read properties of undefined (reading 'ok')''))"

definition json_body :: "'a GraphQLResponse \<Rightarrow> 'a http_response" where
  "json_body b = \<lparr>ok = True, status = 200, statusText = ''OK'', json = Inr b\<rparr>"

text \<open>Fixtures in the shape of the test suite's pull requests and pages.\<close>

definition mock_pr :: "string \<Rightarrow> int \<Rightarrow> pr_state \<Rightarrow> string \<Rightarrow> int \<Rightarrow> int \<Rightarrow> PullRequest" where
  "mock_pr ident num st who ncomments nreview =
     \<lparr>id' = ident, number = num, title = ''PR'', body = None, state = st,
      createdAt = ''2023-01-01T00:00:00Z'', updatedAt = ''2023-01-02T00:00:00Z'',
      mergedAt = None,
      author = \<lparr>login = who, name = None, email = None, avatarUrl = ''https://avatar.url''\<rparr>,
      url = ''https://github.com/owner/repo/pull'',
      comments = \<lparr>nodes = [], totalCount = ncomments\<rparr>,
      reviewComments = \<lparr>nodes = [], totalCount = nreview\<rparr>\<rparr>"

definition mockPRs :: "PullRequest list" where
  "mockPRs =
     [mock_pr ''PR_1'' 1 OPEN ''user1'' 2 1,
      mock_pr ''PR_2'' 2 MERGED ''user2'' 3 2,
      mock_pr ''PR_3'' 3 CLOSED ''user1'' 1 0]"

definition mock_page :: "PullRequest list \<Rightarrow> bool \<Rightarrow> string option \<Rightarrow> PullRequestsResponse" where
  "mock_page prs has_next cursor =
     \<lparr>repository =
        \<lparr>pullRequests =
           \<lparr>nodes = prs, totalCount = int (length prs),
            pageInfo = \<lparr>hasNextPage = has_next, endCursor = cursor\<rparr>\<rparr>\<rparr>\<rparr>"

definition page_response :: "PullRequestsResponse \<Rightarrow> PullRequestsResponse http_response" where
  "page_response p = json_body \<lparr>data = Some (JObject p), errors = None\<rparr>"

definition test_client :: GitHubGraphQLClient where
  "test_client = \<lparr>this_token = ''test-token'', this_baseUrl = ''https://api.github.com/graphql''\<rparr>"


section \<open>Facts about the pagination loop and the test doubles\<close>

lemma getAll_loop_stop:
  "getAll_loop fetch this owner repo since acc False after issued = Some (Inr acc, issued)"
  by (subst getAll_loop.simps) simp

lemma getAll_loop_step:
  "getAll_loop fetch this owner repo since acc True after issued =
     (case getPullRequestsWithCommentsSince fetch this issued owner repo since (Some 100) after of
        (Inl e, issued') \<Rightarrow> Some (Inl e, issued')
      | (Inr (JObject response), issued') \<Rightarrow>
          getAll_loop fetch this owner repo since
            (acc @ page_nodes response) (page_hasNextPage response) (page_endCursor response) issued'
      | (Inr _, issued') \<Rightarrow>
          Some (Inl (TypeError ''Cannot read properties of undefined (reading 'pullRequests')''), issued'))"
  by (subst getAll_loop.simps) simp

lemma query_page:
  assumes "fetch issued (fetch_request this q vars) = Inr response"
    and "page_of response = Some p"
  shows "query fetch this issued q vars = (Inr (JObject p), issued @ [fetch_request this q vars])"
  using assms
  by (auto simp: query_def page_of_def Let_def split: if_splits sum.splits option.splits js_data.splits)

lemma get_page:
  assumes "fetch issued (page_request this owner repo since n after) = Inr response"
    and "page_of response = Some p"
  shows "getPullRequestsWithCommentsSince fetch this issued owner repo since (Some n) after =
           (Inr (JObject p), issued @ [page_request this owner repo since n after])"
  using assms unfolding getPullRequestsWithCommentsSince_def page_request_def
  by (simp add: query_page)

lemma getAll_loop_pages:
  assumes "serves_pages fetch this owner repo since issued after ps"
    and "ps \<noteq> []"
    and "\<forall>p \<in> set (butlast ps). page_hasNextPage p"
    and "\<not> page_hasNextPage (last ps)"
  shows "getAll_loop fetch this owner repo since acc True after issued =
           Some (Inr (acc @ concat (map page_nodes ps)),
                 issued @ map (page_request this owner repo since 100)
                            (after # map page_endCursor (butlast ps)))"
  using assms
proof (induction ps arbitrary: issued after acc)
  case Nil
  then show ?case by simp
next
  case (Cons p ps)
  from Cons.prems(1) obtain response where
    r: "fetch issued (page_request this owner repo since 100 after) = Inr response"
    and p: "page_of response = Some p"
    and rest: "serves_pages fetch this owner repo since
                 (issued @ [page_request this owner repo since 100 after]) (page_endCursor p) ps"
    by (auto split: sum.splits)
  from r p have page:
    "getPullRequestsWithCommentsSince fetch this issued owner repo since (Some 100) after =
       (Inr (JObject p), issued @ [page_request this owner repo since 100 after])"
    by (rule get_page)
  show ?case
  proof (cases "ps = []")
    case True
    with Cons.prems(4) have "\<not> page_hasNextPage p" by simp
    with True page show ?thesis
      by (simp add: getAll_loop_step getAll_loop_stop)
  next
    case False
    with Cons.prems(3) have more: "page_hasNextPage p" and
      others: "\<forall>q \<in> set (butlast ps). page_hasNextPage q"
      by simp_all
    from False Cons.prems(4) have final: "\<not> page_hasNextPage (last ps)" by simp
    from Cons.IH [OF rest False others final, of "acc @ page_nodes p"] more page False
    show ?thesis
      by (simp add: getAll_loop_step)
  qed
qed

lemma page_request_after:
  "map_of (variables (req_body (page_request this owner repo since first after))) ''after'' =
     Some (case after of None \<Rightarrow> PUndefined | Some c \<Rightarrow> PString c)"
  by (simp add: page_request_def fetch_request_def)

lemma page_of_page_response: "page_of (page_response p) = Some p"
  by (simp add: page_of_def page_response_def json_body_def)

lemma mock_page_sel:
  "page_nodes (mock_page prs has_next cursor) = prs"
  "page_hasNextPage (mock_page prs has_next cursor) = has_next"
  "page_endCursor (mock_page prs has_next cursor) = cursor"
  by (simp_all add: mock_page_def)

lemma mockResolvedValueOnce_nth:
  "length issued < length rs \<Longrightarrow> mockResolvedValueOnce rs issued req = Inr (rs ! length issued)"
  by (simp add: mockResolvedValueOnce_def)

lemma string_of_int_1: "string_of_int 1 = ''1''"
  by (simp add: string_of_int_def string_of_nat.simps)

lemma foldl_plus_sum_list:
  "foldl (\<lambda>sum pr. sum + f pr) a prs = (a :: int) + sum_list (map f prs)"
  by (induction prs arbitrary: a) simp_all

lemma getAll_mock_pages:
  assumes "ps \<noteq> []"
    and "\<forall>p \<in> set (butlast ps). page_hasNextPage p"
    and "\<not> page_hasNextPage (last ps)"
  shows "getAllPullRequestsWithCommentsSince (mockResolvedValueOnce (map page_response ps))
           this [] owner repo since =
         Some (Inr (concat (map page_nodes ps)),
               map (page_request this owner repo since 100) (None # map page_endCursor (butlast ps)))"
proof -
  have "serves_pages (mockResolvedValueOnce (map page_response (qs @ ps))) this owner repo since
          issued after ps" if "length issued = length qs" for qs issued after
    using that
  proof (induction ps arbitrary: qs issued after)
    case Nil
    show ?case by simp
  next
    case (Cons p ps)
    from Cons.prems have "length (issued @ [page_request this owner repo since 100 after]) = length (qs @ [p])"
      by simp
    from Cons.IH [OF this] Cons.prems show ?case
      by (simp add: mockResolvedValueOnce_def page_of_page_response nth_append)
  qed
  from this [of "[]" "[]" None]
  have "serves_pages (mockResolvedValueOnce (map page_response ps)) this owner repo since [] None ps"
    by simp
  from getAll_loop_pages [OF this assms, of "[]"] show ?thesis
    by (simp add: getAllPullRequestsWithCommentsSince_def)
qed

lemma getPRSummary_of_fetched:
  assumes "getAllPullRequestsWithCommentsSince fetch this issued owner repo since = Some (Inr prs, issued')"
  shows "getPRSummary fetch this issued owner repo since =
           Some (Inr \<lparr>totalPRs = int (length prs),
                      openPRs = int (length (filter (\<lambda>pr. state pr = OPEN) prs)),
                      closedPRs = int (length (filter (\<lambda>pr. state pr = CLOSED) prs)),
                      mergedPRs = int (length (filter (\<lambda>pr. state pr = MERGED) prs)),
                      totalComments = sum_list (map (\<lambda>pr. totalCount (comments pr)) prs),
                      totalReviewComments = sum_list (map (\<lambda>pr. totalCount (reviewComments pr)) prs),
                      prsByAuthor = groupByAuthor prs\<rparr>,
                 issued')"
  using assms by (simp add: getPRSummary_def foldl_plus_sum_list)



section \<open>Facts about the author mapping\<close>

text \<open>
  As long as no login is the name of a property of \<open>Object.prototype\<close>, the loop of
  \<open>groupByAuthor\<close> counts: the keys are the logins that occur, every value is a
  positive number, and the values add up to the number of pull requests.
\<close>

lemma count_total_update:
  "distinct (map fst obj) \<Longrightarrow>
   count_total (AList.update k v obj) =
     count_total obj - (case map_of obj k of None \<Rightarrow> 0 | Some w \<Rightarrow> prim_count w) + prim_count v"
  by (induction obj) (auto simp: count_total_def rev_image_eqI map_of_eq_None_iff [THEN iffD2])

lemma set_update_subset: "set (AList.update k v obj) \<subseteq> insert (k, v) (set obj)"
  by (induction obj) auto

lemma counting_update:
  assumes "counting obj" and "n > 0"
  shows "counting (AList.update k (PNumber n) obj)"
  using assms set_update_subset [of k "PNumber n" obj]
  unfolding counting_def by (fastforce simp: distinct_update)

lemma count_author_plain:
  assumes "counting obj" and "object_prototype_get k = Prim PUndefined"
  shows "counting (count_author obj k)
         \<and> count_total (count_author obj k) = count_total obj + 1
         \<and> fst ` set (count_author obj k) = insert k (fst ` set obj)"
proof -
  from assms(2) have k: "k \<noteq> ''__proto__''"
    by (auto simp: object_prototype_get_def)
  then have keys: "fst ` set (count_author obj k) = insert k (fst ` set obj)"
    by (simp add: count_author_def js_set_def dom_update)
  from assms(1) have d: "distinct (map fst obj)"
    by (simp add: counting_def)
  show ?thesis
  proof (cases "map_of obj k")
    case None
    with assms k have step: "count_author obj k = AList.update k (PNumber 1) obj"
      by (simp add: count_author_def js_set_def js_get_def js_or_def js_plus_def)
    from assms(1) have "counting (AList.update k (PNumber 1) obj)"
      by (simp add: counting_update)
    moreover from d None have "count_total (AList.update k (PNumber 1) obj) = count_total obj + 1"
      by (simp add: count_total_update)
    ultimately show ?thesis
      using keys by (simp add: step)
  next
    case (Some w)
    then have "(k, w) \<in> set obj" by (rule map_of_SomeD)
    with assms(1) obtain n where n: "w = PNumber n" "n > 0"
      by (auto simp: counting_def)
    with Some assms k have step: "count_author obj k = AList.update k (PNumber (n + 1)) obj"
      by (simp add: count_author_def js_set_def js_get_def js_or_def js_plus_def)
    from assms(1) n have "counting (AList.update k (PNumber (n + 1)) obj)"
      by (simp add: counting_update)
    moreover from d Some n
    have "count_total (AList.update k (PNumber (n + 1)) obj) = count_total obj + 1"
      by (simp add: count_total_update)
    ultimately show ?thesis
      using keys by (simp add: step)
  qed
qed

lemma foldl_count_author_plain:
  assumes "counting obj" and "\<forall>k \<in> set ks. object_prototype_get k = Prim PUndefined"
  shows "counting (foldl count_author obj ks)
         \<and> count_total (foldl count_author obj ks) = count_total obj + int (length ks)
         \<and> fst ` set (foldl count_author obj ks) = set ks \<union> fst ` set obj"
  using assms
proof (induction ks arbitrary: obj)
  case Nil
  then show ?case by simp
next
  case (Cons k ks)
  from Cons.prems have k: "object_prototype_get k = Prim PUndefined" by simp
  from count_author_plain [OF Cons.prems(1) k]
  have step: "counting (count_author obj k)"
    "count_total (count_author obj k) = count_total obj + 1"
    "fst ` set (count_author obj k) = insert k (fst ` set obj)"
    by simp_all
  from Cons.prems(2) have "\<forall>k' \<in> set ks. object_prototype_get k' = Prim PUndefined" by simp
  from Cons.IH [OF step(1) this] step(2,3) show ?case by auto
qed

lemma groupByAuthor_foldl:
  "groupByAuthor prs = foldl count_author [] (map (\<lambda>pr. login (author pr)) prs)"
  by (simp add: groupByAuthor_def foldl_map count_author_def [abs_def] Let_def)

lemma groupByAuthor_plain_logins:
  assumes "\<forall>pr \<in> set prs. object_prototype_get (login (author pr)) = Prim PUndefined"
  shows "count_total (groupByAuthor prs) = int (length prs)
         \<and> fst ` set (groupByAuthor prs) = (\<lambda>pr. login (author pr)) ` set prs
         \<and> counting (groupByAuthor prs)"
proof -
  have "counting []" by (simp add: counting_def)
  moreover from assms
  have "\<forall>k \<in> set (map (\<lambda>pr. login (author pr)) prs). object_prototype_get k = Prim PUndefined"
    by simp
  ultimately show ?thesis
    using foldl_count_author_plain [of "[]" "map (\<lambda>pr. login (author pr)) prs"]
    by (simp add: groupByAuthor_foldl count_total_def)
qed


section \<open>Construction\<close>

text \<open>
  C4. When the config supplies no token and \<open>GITHUB_TOKEN\<close> is not set in the
  environment, construction fails with the exact configuration error message. The
  constructor is a function of the environment and its argument alone, so the failure
  comes before any request. When the config or the environment provides a token, that
  is a non-empty string, construction succeeds.
\<close>

theorem constructor_token_required:
  "(config_token cfg = None \<and> env ''GITHUB_TOKEN'' = None \<longrightarrow>
      constructor env cfg = Inl (Error ''GitHub token is required. Set GITHUB_TOKEN environment variable or pass token in config.''))
   \<and> ((\<exists>t. t \<noteq> [] \<and> (config_token cfg = Some t \<or> env ''GITHUB_TOKEN'' = Some t)) \<longrightarrow>
        (\<exists>client. constructor env cfg = Inr client))"
  by (auto simp: constructor_def config_token_def or_else_def or_default_def Let_def split: option.splits)

theorem constructor_token_required_witness:
  "constructor Map.empty None = Inl (Error ''GitHub token is required. Set GITHUB_TOKEN environment variable or pass token in config.'')
   \<and> (\<exists>client. constructor Map.empty (Some \<lparr>token = Some ''my-token'', baseUrl = None\<rparr>) = Inr client)
   \<and> (\<exists>client. constructor [''GITHUB_TOKEN'' \<mapsto> ''env-token''] None = Inr client)"
  using constructor_token_required [of None Map.empty]
        constructor_token_required [of "Some \<lparr>token = Some ''my-token'', baseUrl = None\<rparr>" Map.empty]
        constructor_token_required [of None "[''GITHUB_TOKEN'' \<mapsto> ''env-token'']"]
  by (simp add: config_token_def)

text \<open>
  C10. A config whose token is the empty string is treated exactly as a config without
  a token: the constructor gives the same outcome for both, so the environment is
  consulted; construction fails with the configuration error when \<open>GITHUB_TOKEN\<close> is
  unset or empty, and takes the token of the environment otherwise.
\<close>

theorem constructor_empty_token_as_absent:
  "constructor env (Some \<lparr>token = Some [], baseUrl = base\<rparr>) =
     constructor env (Some \<lparr>token = None, baseUrl = base\<rparr>)
   \<and> (env ''GITHUB_TOKEN'' = None \<or> env ''GITHUB_TOKEN'' = Some [] \<longrightarrow>
        constructor env (Some \<lparr>token = Some [], baseUrl = base\<rparr>) =
          Inl (Error ''GitHub token is required. Set GITHUB_TOKEN environment variable or pass token in config.''))
   \<and> (\<forall>t. t \<noteq> [] \<and> env ''GITHUB_TOKEN'' = Some t \<longrightarrow>
        (\<exists>client. constructor env (Some \<lparr>token = Some [], baseUrl = base\<rparr>) = Inr client
           \<and> this_token client = t))"
  by (auto simp: constructor_def or_else_def or_default_def Let_def split: option.splits)

theorem constructor_empty_token_as_absent_witness:
  "constructor Map.empty (Some \<lparr>token = Some [], baseUrl = None\<rparr>) =
     Inl (Error ''GitHub token is required. Set GITHUB_TOKEN environment variable or pass token in config.'')
   \<and> constructor [''GITHUB_TOKEN'' \<mapsto> []] (Some \<lparr>token = Some [], baseUrl = None\<rparr>) =
     Inl (Error ''GitHub token is required. Set GITHUB_TOKEN environment variable or pass token in config.'')
   \<and> (\<exists>client. constructor [''GITHUB_TOKEN'' \<mapsto> ''env-token''] (Some \<lparr>token = Some [], baseUrl = None\<rparr>) = Inr client
        \<and> this_token client = ''env-token'')"
proof -
  have unset: "(Map.empty :: string \<rightharpoonup> string) ''GITHUB_TOKEN'' = None"
    by simp
  have blank: "[''GITHUB_TOKEN'' \<mapsto> []] ''GITHUB_TOKEN'' = Some []"
    by simp
  have given: "''env-token'' \<noteq> [] \<and> [''GITHUB_TOKEN'' \<mapsto> ''env-token''] ''GITHUB_TOKEN'' = Some ''env-token''"
    by simp
  from unset constructor_empty_token_as_absent [of Map.empty None]
  have a: "constructor Map.empty (Some \<lparr>token = Some [], baseUrl = None\<rparr>) =
     Inl (Error ''GitHub token is required. Set GITHUB_TOKEN environment variable or pass token in config.'')"
    by blast
  from blank constructor_empty_token_as_absent [of "[''GITHUB_TOKEN'' \<mapsto> []]" None]
  have b: "constructor [''GITHUB_TOKEN'' \<mapsto> []] (Some \<lparr>token = Some [], baseUrl = None\<rparr>) =
     Inl (Error ''GitHub token is required. Set GITHUB_TOKEN environment variable or pass token in config.'')"
    by blast
  from given constructor_empty_token_as_absent [of "[''GITHUB_TOKEN'' \<mapsto> ''env-token'']" None]
  have c: "\<exists>client. constructor [''GITHUB_TOKEN'' \<mapsto> ''env-token''] (Some \<lparr>token = Some [], baseUrl = None\<rparr>) = Inr client
        \<and> this_token client = ''env-token''"
    by blast
  from a b c show ?thesis by blast
qed


section \<open>query\<close>

text \<open>
  C1. When the transport delivers a success response whose envelope has a non-empty
  \<open>errors\<close> array, \<open>query\<close> fails with the message \<open>GraphQL errors: \<close> followed by
  the messages joined with \<open>, \<close> in the order of the array, whatever the \<open>data\<close> field of
  the envelope is, present or not.
\<close>

theorem query_graphql_errors_first:
  assumes "fetch issued (fetch_request this q vars) = Inr response"
    and "ok response"
    and "json response = Inr result"
    and "errors result = Some es"
    and "es \<noteq> []"
  shows "query fetch this issued q vars =
           (Inl (Error (''GraphQL errors: '' @ join '', '' (map message es))),
            issued @ [fetch_request this q vars])"
  using assms by (simp add: query_def Let_def)

theorem query_graphql_errors_first_witness:
  "query (mockResolvedValue
            (json_body \<lparr>data = Some (JObject ()),
                        errors = Some [\<lparr>message = ''Field not found'', locations = None, path = None\<rparr>,
                                       \<lparr>message = ''Bad cursor'', locations = None, path = None\<rparr>]\<rparr>))
         test_client [] ''{ invalid { field } }'' None =
     (Inl (Error ''GraphQL errors: Field not found, Bad cursor''),
      [fetch_request test_client ''{ invalid { field } }'' None])"
  using query_graphql_errors_first
    [of "mockResolvedValue
            (json_body \<lparr>data = Some (JObject ()),
                        errors = Some [\<lparr>message = ''Field not found'', locations = None, path = None\<rparr>,
                                       \<lparr>message = ''Bad cursor'', locations = None, path = None\<rparr>]\<rparr>)"
        "[]" test_client "''{ invalid { field } }''" None
        "json_body \<lparr>data = Some (JObject ()),
                        errors = Some [\<lparr>message = ''Field not found'', locations = None, path = None\<rparr>,
                                       \<lparr>message = ''Bad cursor'', locations = None, path = None\<rparr>]\<rparr>"
        "\<lparr>data = Some (JObject ()),
                        errors = Some [\<lparr>message = ''Field not found'', locations = None, path = None\<rparr>,
                                       \<lparr>message = ''Bad cursor'', locations = None, path = None\<rparr>]\<rparr>"
        "[\<lparr>message = ''Field not found'', locations = None, path = None\<rparr>,
                                       \<lparr>message = ''Bad cursor'', locations = None, path = None\<rparr>]"]
  by (simp add: mockResolvedValue_def json_body_def)

text \<open>
  C6. When the transport delivers a success response whose envelope has no \<open>data\<close>
  field and whose \<open>errors\<close> field is absent or empty (the body \<open>{}\<close> for instance),
  \<open>query\<close> fails with exactly the message \<open>No data returned from GraphQL query\<close>.
\<close>

theorem query_no_data:
  assumes "fetch issued (fetch_request this q vars) = Inr response"
    and "ok response"
    and "json response = Inr result"
    and "errors result = None \<or> errors result = Some []"
    and "data result = None"
  shows "query fetch this issued q vars =
           (Inl (Error ''No data returned from GraphQL query''),
            issued @ [fetch_request this q vars])"
  using assms by (auto simp add: query_def Let_def)

theorem query_no_data_witness:
  "query (mockResolvedValue (json_body \<lparr>data = None :: unit js_data option, errors = None\<rparr>))
         test_client [] ''{ viewer { login } }'' None =
     (Inl (Error ''No data returned from GraphQL query''),
      [fetch_request test_client ''{ viewer { login } }'' None])"
  using query_no_data
    [of "mockResolvedValue (json_body \<lparr>data = None :: unit js_data option, errors = None\<rparr>)"
        "[]" test_client "''{ viewer { login } }''" None
        "json_body \<lparr>data = None, errors = None\<rparr>" "\<lparr>data = None, errors = None\<rparr>"]
  by (simp add: mockResolvedValue_def json_body_def)


section \<open>Pagination\<close>

text \<open>
  C2. Whenever the transport serves a non-empty sequence of valid pages of which every
  page but the last has \<open>hasNextPage = true\<close> and the last has \<open>hasNextPage = false\<close>,
  \<open>getAllPullRequestsWithCommentsSince\<close> returns the nodes of all pages concatenated in
  page order and issues exactly one request per page: the first without cursor, each
  later one with \<open>after\<close> set to the \<open>endCursor\<close> of the page before. The two-page
  sequence of the test suite (one pull request per page, cursor \<open>cursor1\<close>) is the
  instance evaluated after the theorem: two requests, the second with
  \<open>after = cursor1\<close>, and a result of length 2 in page order.
\<close>

theorem getAll_follows_cursors:
  assumes "serves_pages fetch this owner repo since issued None ps"
    and "ps \<noteq> []"
    and "\<forall>p \<in> set (butlast ps). page_hasNextPage p"
    and "\<not> page_hasNextPage (last ps)"
  shows "getAllPullRequestsWithCommentsSince fetch this issued owner repo since =
           Some (Inr (concat (map page_nodes ps)),
                 issued @ map (page_request this owner repo since 100)
                            (None # map page_endCursor (butlast ps)))"
  using getAll_loop_pages [OF assms, of "[]"]
  by (simp add: getAllPullRequestsWithCommentsSince_def)

theorem getAll_follows_cursors_witness:
  "getAllPullRequestsWithCommentsSince
     (mockResolvedValueOnce
        [page_response (mock_page [mock_pr ''PR_1'' 1 OPEN ''user1'' 0 0] True (Some ''cursor1'')),
         page_response (mock_page [mock_pr ''PR_2'' 2 CLOSED ''user2'' 0 0] False None)])
     test_client [] ''owner'' ''repo'' ''2023-01-01T00:00:00Z'' =
   Some (Inr [mock_pr ''PR_1'' 1 OPEN ''user1'' 0 0, mock_pr ''PR_2'' 2 CLOSED ''user2'' 0 0],
         [page_request test_client ''owner'' ''repo'' ''2023-01-01T00:00:00Z'' 100 None,
          page_request test_client ''owner'' ''repo'' ''2023-01-01T00:00:00Z'' 100 (Some ''cursor1'')])
   \<and> map_of (variables (req_body
             (page_request test_client ''owner'' ''repo'' ''2023-01-01T00:00:00Z'' 100 (Some ''cursor1''))))
         ''after'' = Some (PString ''cursor1'')"
  using getAll_follows_cursors
    [of "mockResolvedValueOnce
           [page_response (mock_page [mock_pr ''PR_1'' 1 OPEN ''user1'' 0 0] True (Some ''cursor1'')),
            page_response (mock_page [mock_pr ''PR_2'' 2 CLOSED ''user2'' 0 0] False None)]"
        test_client "''owner''" "''repo''" "''2023-01-01T00:00:00Z''" "[]"
        "[mock_page [mock_pr ''PR_1'' 1 OPEN ''user1'' 0 0] True (Some ''cursor1''),
          mock_page [mock_pr ''PR_2'' 2 CLOSED ''user2'' 0 0] False None]"]
  by (simp add: mockResolvedValueOnce_nth page_of_page_response mock_page_sel page_request_after)

text \<open>
  C3. For a valid response to the first request whose page has \<open>hasNextPage = false\<close>,
  whatever its \<open>endCursor\<close> is, \<open>getAllPullRequestsWithCommentsSince\<close> issues exactly
  that one request and returns exactly the nodes of the page, in the same order.
\<close>

theorem getAll_single_page:
  assumes "fetch issued (page_request this owner repo since 100 None) = Inr response"
    and "page_of response = Some page"
    and "\<not> page_hasNextPage page"
  shows "getAllPullRequestsWithCommentsSince fetch this issued owner repo since =
           Some (Inr (page_nodes page), issued @ [page_request this owner repo since 100 None])"
proof -
  from assms(1,2) have "serves_pages fetch this owner repo since issued None [page]"
    by simp
  from getAll_loop_pages [OF this, of "[]"] assms(3) show ?thesis
    by (simp add: getAllPullRequestsWithCommentsSince_def)
qed

theorem getAll_single_page_witness:
  "getAllPullRequestsWithCommentsSince
     (mockResolvedValue (page_response (mock_page mockPRs False (Some ''ignored''))))
     test_client [] ''owner'' ''repo'' ''2023-01-01T00:00:00Z'' =
   Some (Inr mockPRs, [page_request test_client ''owner'' ''repo'' ''2023-01-01T00:00:00Z'' 100 None])"
  using getAll_single_page
    [of "mockResolvedValue (page_response (mock_page mockPRs False (Some ''ignored'')))"
        "[]" test_client "''owner''" "''repo''" "''2023-01-01T00:00:00Z''"
        "page_response (mock_page mockPRs False (Some ''ignored''))"
        "mock_page mockPRs False (Some ''ignored'')"]
  by (simp add: mockResolvedValue_def page_of_page_response mock_page_sel)

section \<open>The summary\<close>





text \<open>
  C9. The claim: the values of \<open>prsByAuthor\<close> add up to \<open>totalPRs\<close> and every key is the
  login of an author in the list. The code misses it for a login that names a property
  of \<open>Object.prototype\<close>: for one pull request by the author \<open>constructor\<close>, the read
  \<open>grouped[author]\<close> yields the inherited function \<open>Object\<close>, which is truthy, and
  \<open>+ 1\<close> concatenates; the entry is a string, not the count 1, while \<open>totalPRs\<close> is 1.
\<close>

theorem getPRSummary_author_named_constructor:
  "getPRSummary
     (mockResolvedValueOnce
        [page_response (mock_page [mock_pr ''PR_1'' 1 OPEN ''constructor'' 0 0] False None)])
     test_client [] ''owner'' ''repo'' ''2023-01-01T00:00:00Z'' =
   Some (Inr \<lparr>totalPRs = 1, openPRs = 1, closedPRs = 0, mergedPRs = 0,
              totalComments = 0, totalReviewComments = 0,
              prsByAuthor = [(''constructor'', PString ''function Object() { [native code] }1'')]\<rparr>,
         [page_request test_client ''owner'' ''repo'' ''2023-01-01T00:00:00Z'' 100 None])"
proof -
  have "getAllPullRequestsWithCommentsSince
          (mockResolvedValueOnce
             [page_response (mock_page [mock_pr ''PR_1'' 1 OPEN ''constructor'' 0 0] False None)])
          test_client [] ''owner'' ''repo'' ''2023-01-01T00:00:00Z'' =
        Some (Inr [mock_pr ''PR_1'' 1 OPEN ''constructor'' 0 0],
              [page_request test_client ''owner'' ''repo'' ''2023-01-01T00:00:00Z'' 100 None])"
    using getAll_mock_pages
      [of "[mock_page [mock_pr ''PR_1'' 1 OPEN ''constructor'' 0 0] False None]" test_client
          "''owner''" "''repo''" "''2023-01-01T00:00:00Z''"]
    by (simp add: mock_page_sel)
  from getPRSummary_of_fetched [OF this] show ?thesis
    by (simp add: mock_pr_def groupByAuthor_def js_set_def js_get_def js_or_def js_plus_def
                  object_prototype_get_def string_of_int_1)
qed

end
